theory Spec2Isabelle
  imports Main
begin

section \<open>The module globals of oauth.py\<close>

text \<open>
  The program is one module, \<^verbatim>\<open>oauth.py\<close>: five bottle routes and one
  \<^verbatim>\<open>after_request\<close> hook around the Dropbox v1 SDK. Its state is the module's
  globals: the dict \<^verbatim>\<open>session\<close>, the never assigned \<^verbatim>\<open>dropbox_flow\<close> and the
  slot \<^verbatim>\<open>client\<close>. The SDK talks to the provider and draws random CSRF tokens, so the
  state also carries a \<open>world\<close> of an arbitrary type \<open>'w\<close> that the SDK calls read and
  update.
\<close>

type_synonym session = "string \<rightharpoonup> string"
type_synonym query = "(string \<times> string) list"
type_synonym access_token = string

definition app_key :: string where
  "app_key = ''9ero453euch91e0''"

definition app_secret :: string where
  "app_secret = ''621050byozk9lgd''"

definition dropbox_redirect_uri :: string where
  "dropbox_redirect_uri = ''http://localhost:8080/redirect_uri''"

text \<open>
  \<^verbatim>\<open>DropboxOAuth2Flow(app_key, app_secret, dropbox_redirect_uri, session, csrf_key)\<close>:
  the constructor only stores its five arguments.
\<close>

record oauth2_flow =
  consumer_key :: string
  consumer_secret :: string
  flow_redirect_uri :: string
  flow_session :: session
  csrf_token_session_key :: string

text \<open>\<^verbatim>\<open>DropboxClient(access_token)\<close> wraps the access token.\<close>

datatype dropbox_client = DropboxClient access_token

text \<open>
  The exceptions a handler can raise: Python's \<^verbatim>\<open>AttributeError\<close> for an attribute
  looked up on \<^verbatim>\<open>None\<close> (the payload is the attribute's name), the
  \<^verbatim>\<open>ValueError\<close> of the SDK's client constructor (the payload is the argument's name),
  and whatever else the SDK raises (a bad request, a CSRF mismatch, a rejected code, a
  failed provider call).
\<close>

datatype exn = AttributeError string | ValueError string | SdkError string

record 'w state =
  session :: session
  dropbox_flow :: "oauth2_flow option"
  client :: "dropbox_client option"
  world :: 'w

text \<open>The state the module's top level leaves behind before \<^verbatim>\<open>run\<close> starts serving.\<close>

definition init :: "'w \<Rightarrow> 'w state" where
  "init w = \<lparr>session = Map.empty, dropbox_flow = None, client = None, world = w\<rparr>"

section \<open>The libraries behind the module\<close>

text \<open>
  The Dropbox SDK and \<^verbatim>\<open>urllib\<close> are not part of the program; their operations are
  parameters of the model. \<^verbatim>\<open>start\<close> draws a CSRF token, writes it into the session
  it was given and returns the authorization URL, without a call to the provider, so it
  has no failure; \<^verbatim>\<open>finish\<close> checks the query against the session
  and exchanges the code, returning the access token, the user id and the URL state, or
  raising; \<^verbatim>\<open>account_info\<close> and \<^verbatim>\<open>metadata\<close> ask the provider and return its JSON
  answer (of an arbitrary type \<open>'j\<close>), or raise. The session is the module's dict, shared
  by reference, so \<^verbatim>\<open>start\<close> and \<^verbatim>\<open>finish\<close> return it updated.
  \<^verbatim>\<open>token_ok\<close> is the format check of the client constructor: the SDK's pattern
  for OAuth 2 access tokens.
  \<^verbatim>\<open>urljoin\<close> is the function bottle's \<^verbatim>\<open>redirect\<close> resolves the target with.
\<close>

record ('w, 'j) lib =
  flow_start :: "oauth2_flow \<Rightarrow> 'w \<Rightarrow> string \<times> session \<times> 'w"
  flow_finish :: "oauth2_flow \<Rightarrow> query \<Rightarrow> 'w \<Rightarrow>
    (exn + access_token \<times> string \<times> string option) \<times> session \<times> 'w"
  account_info :: "dropbox_client \<Rightarrow> 'w \<Rightarrow> (exn + 'j) \<times> 'w"
  metadata :: "dropbox_client \<Rightarrow> string \<Rightarrow> 'w \<Rightarrow> (exn + 'j) \<times> 'w"
  token_ok :: "access_token \<Rightarrow> bool"
  urljoin :: "string \<Rightarrow> string \<Rightarrow> string"

section \<open>Requests, responses and what a handler can do\<close>

text \<open>
  A request as the WSGI server hands it to bottle: \<open>path\<close> is \<^verbatim>\<open>PATH_INFO\<close>, which
  the server has already percent-decoded. Every route of the module is registered for GET
  only, and the requests modelled are GET requests.
\<close>

record request =
  path :: string
  query :: query
  server_protocol :: string
  url :: string

datatype 'j body = Empty | Json 'j | ErrorPage nat

text \<open>
  \<open>headers\<close> holds what the program and \<^verbatim>\<open>redirect\<close> set; the \<^verbatim>\<open>Content-Type\<close> and
  \<^verbatim>\<open>Content-Length\<close> bottle adds on output are left out.
\<close>

record 'j response =
  status :: nat
  headers :: "string \<rightharpoonup> string"
  body :: "'j body"

text \<open>
  A handler returns a value (\<^verbatim>\<open>None\<close> or a dict), raises an \<^verbatim>\<open>HTTPResponse\<close>, or
  raises any other exception.
\<close>

datatype 'j outcome =
  Returns "'j option"
  | RaisesResponse "'j response"
  | RaisesExn exn

fun result_outcome :: "exn + 'j \<Rightarrow> 'j outcome" where
  "result_outcome (Inl e) = RaisesExn e"
| "result_outcome (Inr j) = Returns (Some j)"

text \<open>
  \<^verbatim>\<open>bottle.redirect(url)\<close>: copies the current response into an \<^verbatim>\<open>HTTPResponse\<close>,
  sets the status to 303 under HTTP/1.1 and to 302 otherwise, empties the body, sets
  \<^verbatim>\<open>Location\<close> to \<^verbatim>\<open>urljoin(request.url, url)\<close> and raises it.
\<close>

definition redirect ::
  "('w, 'j) lib \<Rightarrow> request \<Rightarrow> 'j response \<Rightarrow> string \<Rightarrow> 'j outcome" where
  "redirect L rq resp u =
     RaisesResponse
       (resp\<lparr>status := (if server_protocol rq = ''HTTP/1.1'' then 303 else 302),
              body := Empty,
              headers := (headers resp)(''Location'' \<mapsto> urljoin L (url rq) u)\<rparr>)"

section \<open>The hook and the handlers\<close>

definition enable_cors :: "'j response \<Rightarrow> 'j response" where
  "enable_cors resp =
     resp\<lparr>headers := (headers resp)
       (''Access-Control-Allow-Origin'' \<mapsto> ''*'',
        ''Access-Control-Allow-Methods'' \<mapsto> ''PUT, GET, POST, DELETE, OPTIONS'',
        ''Access-Control-Allow-Headers'' \<mapsto>
          ''Origin, Accept, Content-Type, X-Requested-With, X-CSRF-Token'')\<rparr>"

definition get_auth_flow :: "'w state \<Rightarrow> oauth2_flow" where
  "get_auth_flow st =
     \<lparr>consumer_key = app_key, consumer_secret = app_secret,
      flow_redirect_uri = dropbox_redirect_uri, flow_session = session st,
      csrf_token_session_key = ''dropbox-auth-csrf-token''\<rparr>"

definition dropbox_auth_start ::
  "('w, 'j) lib \<Rightarrow> request \<Rightarrow> 'j response \<Rightarrow> 'w state \<Rightarrow> 'j outcome \<times> 'w state" where
  "dropbox_auth_start L rq resp st =
     (case flow_start L (get_auth_flow st) (world st) of
        (new_url, sess', w') \<Rightarrow>
          (redirect L rq resp new_url, st\<lparr>session := sess', world := w'\<rparr>))"

text \<open>
  \<^verbatim>\<open>client.account_info()\<close> and \<^verbatim>\<open>client.metadata(path)\<close> on the global slot: the
  attribute lookup on \<^verbatim>\<open>None\<close> raises before anything is called.
\<close>

definition client_account_info ::
  "('w, 'j) lib \<Rightarrow> 'w state \<Rightarrow> 'j outcome \<times> 'w state" where
  "client_account_info L st =
     (case client st of
        None \<Rightarrow> (RaisesExn (AttributeError ''account_info''), st)
      | Some c \<Rightarrow>
          (case account_info L c (world st) of
             (r, w') \<Rightarrow> (result_outcome r, st\<lparr>world := w'\<rparr>)))"

definition client_metadata ::
  "('w, 'j) lib \<Rightarrow> string \<Rightarrow> 'w state \<Rightarrow> 'j outcome \<times> 'w state" where
  "client_metadata L p st =
     (case client st of
        None \<Rightarrow> (RaisesExn (AttributeError ''metadata''), st)
      | Some c \<Rightarrow>
          (case metadata L c p (world st) of
             (r, w') \<Rightarrow> (result_outcome r, st\<lparr>world := w'\<rparr>)))"

text \<open>
  \<^verbatim>\<open>dropbox.client.DropboxClient(access_token)\<close>: the constructor raises
  \<^verbatim>\<open>ValueError\<close> for a string that is not of the format of an access token, and wraps
  the token otherwise.
\<close>

definition new_DropboxClient :: "('w, 'j) lib \<Rightarrow> access_token \<Rightarrow> exn + dropbox_client" where
  "new_DropboxClient L access_token =
     (if token_ok L access_token then Inr (DropboxClient access_token)
      else Inl (ValueError ''oauth2_access_token''))"

text \<open>
  \<^verbatim>\<open>redirect_uri\<close>: the dict built from \<^verbatim>\<open>request.query.state\<close> and
  \<^verbatim>\<open>request.query.code\<close> is only printed (bottle's query attributes default to the
  empty string, so building it cannot raise). Then the exchange, the construction of
  the client, its assignment to the global, and the account info of the global.
\<close>

definition redirect_uri ::
  "('w, 'j) lib \<Rightarrow> request \<Rightarrow> 'w state \<Rightarrow> 'j outcome \<times> 'w state" where
  "redirect_uri L rq st =
     (case flow_finish L (get_auth_flow st) (query rq) (world st) of
        (Inl e, sess', w') \<Rightarrow> (RaisesExn e, st\<lparr>session := sess', world := w'\<rparr>)
      | (Inr (access_token, user_id, url_state), sess', w') \<Rightarrow>
          (case new_DropboxClient L access_token of
             Inl e \<Rightarrow> (RaisesExn e, st\<lparr>session := sess', world := w'\<rparr>)
           | Inr c \<Rightarrow>
               client_account_info L
                 (st\<lparr>session := sess', world := w', client := Some c\<rparr>)))"

definition finish_auth ::
  "('w, 'j) lib \<Rightarrow> request \<Rightarrow> 'w state \<Rightarrow> 'j outcome \<times> 'w state" where
  "finish_auth L rq st =
     (case flow_finish L (get_auth_flow st) (query rq) (world st) of
        (Inl e, sess', w') \<Rightarrow> (RaisesExn e, st\<lparr>session := sess', world := w'\<rparr>)
      | (Inr (access_token, user_id, url_state), sess', w') \<Rightarrow>
          (Returns None, st\<lparr>session := sess', world := w'\<rparr>))"

definition get_metadata ::
  "('w, 'j) lib \<Rightarrow> string \<Rightarrow> 'w state \<Rightarrow> 'j outcome \<times> 'w state" where
  "get_metadata L folder_path st = client_metadata L (''/'' @ folder_path) st"

definition initial_corordinates ::
  "('w, 'j) lib \<Rightarrow> 'w state \<Rightarrow> 'j outcome \<times> 'w state" where
  "initial_corordinates L st = client_account_info L st"

section \<open>Routing and the request cycle\<close>

text \<open>
  The five \<^verbatim>\<open>@route\<close> rules. A static rule matches its path exactly. In
  \<^verbatim>\<open>/metadata/:folder_path\<close> the wildcard stands for the pattern \<^verbatim>\<open>[^/]+\<close>: one or
  more characters, none of them a slash.
\<close>

datatype target =
  To_dropbox_auth_start
  | To_redirect_uri
  | To_finish_auth
  | To_get_metadata string
  | To_initial_corordinates

definition wildcard :: "string \<Rightarrow> bool" where
  "wildcard s \<longleftrightarrow> s \<noteq> [] \<and> CHR ''/'' \<notin> set s"

definition route_match :: "string \<Rightarrow> target option" where
  "route_match p =
     (if p = ''/dropbox-auth-start'' then Some To_dropbox_auth_start
      else if p = ''/redirect_uri'' then Some To_redirect_uri
      else if p = ''/dropbox-auth-finish'' then Some To_finish_auth
      else if p = ''/test'' then Some To_initial_corordinates
      else if take 10 p = ''/metadata/'' \<and> wildcard (drop 10 p)
        then Some (To_get_metadata (drop 10 p))
      else None)"

fun call ::
  "('w, 'j) lib \<Rightarrow> request \<Rightarrow> 'j response \<Rightarrow> target \<Rightarrow> 'w state \<Rightarrow> 'j outcome \<times> 'w state"
  where
  "call L rq resp To_dropbox_auth_start st = dropbox_auth_start L rq resp st"
| "call L rq resp To_redirect_uri st = redirect_uri L rq st"
| "call L rq resp To_finish_auth st = finish_auth L rq st"
| "call L rq resp (To_get_metadata folder_path) st = get_metadata L folder_path st"
| "call L rq resp To_initial_corordinates st = initial_corordinates L st"

text \<open>
  \<^verbatim>\<open>HTTPError(code)\<close> is a response of its own, with its own, empty headers; bottle
  renders it as an error page.
\<close>

definition http_error :: "nat \<Rightarrow> 'j response" where
  "http_error code = \<lparr>status = code, headers = Map.empty, body = ErrorPage code\<rparr>"

text \<open>
  What bottle 0.12 sends for a handler's outcome. \<open>resp\<close> is the global
  \<^verbatim>\<open>response\<close> after the \<^verbatim>\<open>after_request\<close> hooks have run on it. A returned value is
  sent with \<open>resp\<close>: \<^verbatim>\<open>None\<close> as an empty body, a dict as JSON. A raised
  \<^verbatim>\<open>HTTPResponse\<close> is applied to the global response, which replaces its status,
  headers and body by those of the raised object. Any other exception is caught
  (\<^verbatim>\<open>catchall\<close> is on by default) and replaced by \<^verbatim>\<open>HTTPError(500)\<close>, applied in the
  same way.
\<close>

fun respond :: "'j response \<Rightarrow> 'j outcome \<Rightarrow> 'j response" where
  "respond resp (Returns None) = resp\<lparr>body := Empty\<rparr>"
| "respond resp (Returns (Some j)) = resp\<lparr>body := Json j\<rparr>"
| "respond resp (RaisesResponse r) = r"
| "respond resp (RaisesExn e) = http_error 500"

text \<open>
  One request: \<^verbatim>\<open>response.bind()\<close> gives a fresh response, the router picks the
  handler (or raises \<^verbatim>\<open>HTTPError(404)\<close>), the handler runs, and the hook runs on the
  global response in the \<^verbatim>\<open>finally\<close> clause, whatever happened.
\<close>

definition fresh :: "'j response" where
  "fresh = \<lparr>status = 200, headers = Map.empty, body = Empty\<rparr>"

definition handle ::
  "('w, 'j) lib \<Rightarrow> request \<Rightarrow> 'w state \<Rightarrow> 'j response \<times> 'w state" where
  "handle L rq st =
     (case route_match (path rq) of
        None \<Rightarrow> (respond (enable_cors fresh) (RaisesResponse (http_error 404)), st)
      | Some t \<Rightarrow>
          (case call L rq fresh t st of
             (out, st') \<Rightarrow> (respond (enable_cors fresh) out, st')))"

text \<open>The server handles one request to completion before the next.\<close>

fun run :: "('w, 'j) lib \<Rightarrow> 'w state \<Rightarrow> request list \<Rightarrow> 'w state" where
  "run L st [] = st"
| "run L st (rq # rqs) = run L (snd (handle L rq st)) rqs"

fun responses :: "('w, 'j) lib \<Rightarrow> 'w state \<Rightarrow> request list \<Rightarrow> 'j response list" where
  "responses L st [] = []"
| "responses L st (rq # rqs) =
     fst (handle L rq st) # responses L (snd (handle L rq st)) rqs"

section \<open>Runs without a successful exchange, and the token view of an exchange\<close>

text \<open>
  A request completes the authorization exchange when it is routed to
  \<^verbatim>\<open>redirect_uri\<close> and the SDK's \<^verbatim>\<open>finish\<close> returns a token for it.
\<close>

definition exchange_succeeds :: "('w, 'j) lib \<Rightarrow> request \<Rightarrow> 'w state \<Rightarrow> bool" where
  "exchange_succeeds L rq st \<longleftrightarrow>
     path rq = ''/redirect_uri'' \<and>
     isl (fst (flow_finish L (get_auth_flow st) (query rq) (world st))) = False"

fun no_exchange_succeeded :: "('w, 'j) lib \<Rightarrow> 'w state \<Rightarrow> request list \<Rightarrow> bool" where
  "no_exchange_succeeded L st [] = True"
| "no_exchange_succeeded L st (rq # rqs) =
     (exchange_succeeds L rq st = False \<and>
      no_exchange_succeeded L (snd (handle L rq st)) rqs)"

text \<open>What is left of an exchange's result once the user id and the URL state are dropped.\<close>

fun token_view ::
  "(exn + access_token \<times> string \<times> string option) \<times> session \<times> 'w \<Rightarrow>
   (exn + access_token) \<times> session \<times> 'w" where
  "token_view (Inl e, sess, w) = (Inl e, sess, w)"
| "token_view (Inr (t, user_id, url_state), sess, w) = (Inr t, sess, w)"

section \<open>Stand-ins for the SDK\<close>

text \<open>
  A stand-in for the libraries, to run the model on concrete requests: the world counts
  the calls made, the exchange accepts the code \<^verbatim>\<open>good\<close> and rejects every other
  query, the account info names the token, the metadata call answers with the path
  it was asked for, and the client constructor accepts every token but the empty one.
\<close>

definition mock_lib :: "(nat, string) lib" where
  "mock_lib =
     \<lparr>flow_start = (\<lambda>fl w.
        (''https://www.dropbox.com/1/oauth2/authorize'',
         (flow_session fl)(csrf_token_session_key fl \<mapsto> ''csrf''), Suc w)),
      flow_finish = (\<lambda>fl q w.
        if map_of q ''code'' = Some ''good''
        then (Inr (''token'', ''uid'', None),
              (flow_session fl)(csrf_token_session_key fl := None), Suc w)
        else (Inl (SdkError ''bad request''), flow_session fl, w)),
      account_info = (\<lambda>c w. case c of DropboxClient t \<Rightarrow> (Inr (''account of '' @ t), Suc w)),
      metadata = (\<lambda>c p w. (Inr p, Suc w)),
      token_ok = (\<lambda>t. t \<noteq> []),
      urljoin = (\<lambda>base u. u)\<rparr>"

text \<open>The same, with a provider whose account-info call fails.\<close>

definition flaky_lib :: "(nat, string) lib" where
  "flaky_lib = mock_lib\<lparr>account_info := (\<lambda>c w. (Inl (SdkError ''upstream''), Suc w))\<rparr>"

text \<open>
  The same as \<open>mock_lib\<close>, except for the user id and the URL state that a successful
  exchange returns with the token.
\<close>

definition other_lib :: "(nat, string) lib" where
  "other_lib =
     mock_lib\<lparr>flow_finish := (\<lambda>fl q w.
        if map_of q ''code'' = Some ''good''
        then (Inr (''token'', ''another uid'', Some ''/home''),
              (flow_session fl)(csrf_token_session_key fl := None), Suc w)
        else (Inl (SdkError ''bad request''), flow_session fl, w))\<rparr>"

text \<open>The same as \<open>mock_lib\<close>, with an exchange that hands out the empty token.\<close>

definition blank_lib :: "(nat, string) lib" where
  "blank_lib =
     mock_lib\<lparr>flow_finish := (\<lambda>fl q w.
        (Inr ([], ''uid'', None), flow_session fl, Suc w))\<rparr>"

text \<open>A GET request for a path and a query, under HTTP/1.1, as a browser sends it.\<close>

definition get :: "string \<Rightarrow> query \<Rightarrow> request" where
  "get p q = \<lparr>path = p, query = q, server_protocol = ''HTTP/1.1'',
              url = ''http://localhost:8080'' @ p\<rparr>"

section \<open>Routing\<close>

lemma route_match_metadata:
  "route_match (''/metadata/'' @ s) = (if wildcard s then Some (To_get_metadata s) else None)"
  by (simp add: route_match_def)

lemma route_match_static:
  "route_match ''/dropbox-auth-start'' = Some To_dropbox_auth_start"
  "route_match ''/redirect_uri'' = Some To_redirect_uri"
  "route_match ''/dropbox-auth-finish'' = Some To_finish_auth"
  "route_match ''/test'' = Some To_initial_corordinates"
  by (simp_all add: route_match_def)

lemma route_match_redirect_uri:
  "route_match p = Some To_redirect_uri \<longleftrightarrow> p = ''/redirect_uri''"
  by (simp add: route_match_def)

section \<open>What each handler does\<close>

lemma redirect_uri_Inl:
  "flow_finish L (get_auth_flow st) (query rq) (world st) = (Inl e, sess', w') \<Longrightarrow>
   redirect_uri L rq st = (RaisesExn e, st\<lparr>session := sess', world := w'\<rparr>)"
  by (simp add: redirect_uri_def)

lemma redirect_uri_Inr:
  "flow_finish L (get_auth_flow st) (query rq) (world st) = (Inr (t, uid, us), sess', w') \<Longrightarrow>
   token_ok L t \<Longrightarrow>
   redirect_uri L rq st =
     client_account_info L
       (st\<lparr>session := sess', world := w', client := Some (DropboxClient t)\<rparr>)"
  by (simp add: redirect_uri_def new_DropboxClient_def)

lemma redirect_uri_rejected_token:
  "flow_finish L (get_auth_flow st) (query rq) (world st) = (Inr (t, uid, us), sess', w') \<Longrightarrow>
   token_ok L t = False \<Longrightarrow>
   redirect_uri L rq st =
     (RaisesExn (ValueError ''oauth2_access_token''), st\<lparr>session := sess', world := w'\<rparr>)"
  by (simp add: redirect_uri_def new_DropboxClient_def)

lemma redirect_uri_success:
  assumes "flow_finish L (get_auth_flow st) (query rq) (world st) =
             (Inr (t, user_id, url_state), sess', w')"
    and "token_ok L t"
    and "account_info L (DropboxClient t) w' = (r, w'')"
  shows "redirect_uri L rq st =
           (result_outcome r,
            st\<lparr>session := sess', client := Some (DropboxClient t), world := w''\<rparr>)"
  using assms by (simp add: redirect_uri_def new_DropboxClient_def client_account_info_def)

lemma get_metadata_unset:
  "client st = None \<Longrightarrow> get_metadata L p st = (RaisesExn (AttributeError ''metadata''), st)"
  by (simp add: get_metadata_def client_metadata_def)

lemma get_metadata_set:
  "client st = Some c \<Longrightarrow>
   get_metadata L folder_path st =
     (result_outcome (fst (metadata L c (''/'' @ folder_path) (world st))),
      st\<lparr>world := snd (metadata L c (''/'' @ folder_path) (world st))\<rparr>)"
  by (simp add: get_metadata_def client_metadata_def split: prod.splits)

lemma initial_corordinates_unset:
  "client st = None \<Longrightarrow>
   initial_corordinates L st = (RaisesExn (AttributeError ''account_info''), st)"
  by (simp add: initial_corordinates_def client_account_info_def)

lemma initial_corordinates_set:
  "client st = Some c \<Longrightarrow>
   initial_corordinates L st =
     (result_outcome (fst (account_info L c (world st))),
      st\<lparr>world := snd (account_info L c (world st))\<rparr>)"
  by (simp add: initial_corordinates_def client_account_info_def split: prod.splits)

section \<open>What bottle answers\<close>


lemma handle_redirect_uri:
  "path rq = ''/redirect_uri'' \<Longrightarrow>
   handle L rq st =
     (respond (enable_cors fresh) (fst (redirect_uri L rq st)), snd (redirect_uri L rq st))"
  by (simp add: handle_def route_match_static split: prod.splits)

lemma handle_finish_auth:
  "path rq = ''/dropbox-auth-finish'' \<Longrightarrow>
   handle L rq st =
     (respond (enable_cors fresh) (fst (finish_auth L rq st)), snd (finish_auth L rq st))"
  by (simp add: handle_def route_match_static split: prod.splits)

lemma handle_metadata:
  "wildcard s \<Longrightarrow> path rq = ''/metadata/'' @ s \<Longrightarrow>
   handle L rq st =
     (respond (enable_cors fresh) (fst (get_metadata L s st)), snd (get_metadata L s st))"
  by (simp add: handle_def route_match_metadata [simplified] split: prod.splits)

lemma handle_unrouted_metadata:
  "wildcard s = False \<Longrightarrow> path rq = ''/metadata/'' @ s \<Longrightarrow> handle L rq st = (http_error 404, st)"
  by (simp add: handle_def route_match_metadata [simplified])

lemma handle_test:
  "path rq = ''/test'' \<Longrightarrow>
   handle L rq st =
     (respond (enable_cors fresh) (fst (initial_corordinates L st)),
      snd (initial_corordinates L st))"
  by (simp add: handle_def route_match_static split: prod.splits)

lemma snd_handle:
  "snd (handle L rq st) =
     (case route_match (path rq) of None \<Rightarrow> st | Some t \<Rightarrow> snd (call L rq fresh t st))"
  by (simp add: handle_def split: option.splits prod.splits)

text \<open>
  The hook does its work on every returned value: the response carries the three headers.
\<close>

lemma returned_response_has_cors:
  "respond (enable_cors fresh) (Returns v) =
     \<lparr>status = 200,
      headers = [''Access-Control-Allow-Origin'' \<mapsto> ''*'',
        ''Access-Control-Allow-Methods'' \<mapsto> ''PUT, GET, POST, DELETE, OPTIONS'',
        ''Access-Control-Allow-Headers'' \<mapsto>
          ''Origin, Accept, Content-Type, X-Requested-With, X-CSRF-Token''],
      body = (case v of None \<Rightarrow> Empty | Some j \<Rightarrow> Json j)\<rparr>"
  by (cases v) (simp_all add: enable_cors_def fresh_def)

section \<open>Who writes the client slot\<close>

lemma client_dropbox_auth_start:
  "client (snd (dropbox_auth_start L rq resp st)) = client st"
  by (simp add: dropbox_auth_start_def split: prod.splits)

lemma client_finish_auth: "client (snd (finish_auth L rq st)) = client st"
  by (simp add: finish_auth_def split: prod.splits sum.splits)

lemma client_client_metadata: "client (snd (client_metadata L p st)) = client st"
  by (simp add: client_metadata_def split: option.splits prod.splits)

lemma client_client_account_info: "client (snd (client_account_info L st)) = client st"
  by (simp add: client_account_info_def split: option.splits prod.splits)

lemma client_redirect_uri_some:
  "client st \<noteq> None \<Longrightarrow> client (snd (redirect_uri L rq st)) \<noteq> None"
  by (simp add: redirect_uri_def new_DropboxClient_def client_client_account_info
      split: prod.splits sum.splits)

lemma client_call_other:
  "t \<noteq> To_redirect_uri \<Longrightarrow> client (snd (call L rq resp t st)) = client st"
  by (cases t)
     (simp_all add: client_dropbox_auth_start client_finish_auth get_metadata_def
        client_client_metadata initial_corordinates_def client_client_account_info)

lemma client_handle_other:
  "path rq \<noteq> ''/redirect_uri'' \<Longrightarrow> client (snd (handle L rq st)) = client st"
proof (cases "route_match (path rq)")
  case None
  then show ?thesis by (simp add: snd_handle)
next
  case (Some t)
  assume "path rq \<noteq> ''/redirect_uri''"
  with Some have "t \<noteq> To_redirect_uri"
    using route_match_redirect_uri [of "path rq"] by auto
  with Some show ?thesis by (simp add: snd_handle client_call_other)
qed

lemma client_handle_failed_exchange:
  "exchange_succeeds L rq st = False \<Longrightarrow> client (snd (handle L rq st)) = client st"
proof (cases "path rq = ''/redirect_uri''")
  case False
  then show ?thesis by (rule client_handle_other)
next
  case True
  assume "exchange_succeeds L rq st = False"
  with True have "isl (fst (flow_finish L (get_auth_flow st) (query rq) (world st)))"
    by (simp add: exchange_succeeds_def)
  then obtain e sess' w' where
    "flow_finish L (get_auth_flow st) (query rq) (world st) = (Inl e, sess', w')"
    by (cases "flow_finish L (get_auth_flow st) (query rq) (world st)") (auto simp: isl_def)
  with True show ?thesis
    by (simp add: snd_handle route_match_static redirect_uri_Inl)
qed

lemma client_handle_some: "client st \<noteq> None \<Longrightarrow> client (snd (handle L rq st)) \<noteq> None"
proof (cases "path rq = ''/redirect_uri''")
  case False
  assume "client st \<noteq> None"
  with False show ?thesis by (simp add: client_handle_other)
next
  case True
  assume "client st \<noteq> None"
  then have "client (snd (redirect_uri L rq st)) \<noteq> None"
    by (rule client_redirect_uri_some)
  with True show ?thesis
    by (simp add: snd_handle route_match_static)
qed

lemma client_run_some: "client st \<noteq> None \<Longrightarrow> client (run L st rqs) \<noteq> None"
proof (induction rqs arbitrary: st)
  case Nil
  then show ?case by simp
next
  case (Cons rq rqs)
  from Cons.prems have "client (snd (handle L rq st)) \<noteq> None"
    by (rule client_handle_some)
  then have "client (run L (snd (handle L rq st)) rqs) \<noteq> None"
    by (rule Cons.IH)
  then show ?case by simp
qed

lemma client_run_no_exchange:
  "no_exchange_succeeded L st rqs \<Longrightarrow> client (run L st rqs) = client st"
  by (induction rqs arbitrary: st) (simp_all add: client_handle_failed_exchange)

lemma client_changes_only_by_exchange:
  "client (snd (handle L rq st)) \<noteq> client st \<Longrightarrow> exchange_succeeds L rq st"
  using client_handle_failed_exchange [of L rq st] by auto

lemma client_redirect_uri_accepted:
  assumes "path rq = ''/redirect_uri''"
    and "fst (flow_finish L (get_auth_flow st) (query rq) (world st)) = Inr (t, uid, us)"
    and "token_ok L t"
  shows "client (snd (handle L rq st)) = Some (DropboxClient t)"
proof -
  obtain sess' w' where
    "flow_finish L (get_auth_flow st) (query rq) (world st) = (Inr (t, uid, us), sess', w')"
    using assms(2) by (cases "flow_finish L (get_auth_flow st) (query rq) (world st)") auto
  then show ?thesis
    using assms(1,3)
    by (simp add: handle_redirect_uri redirect_uri_Inr client_client_account_info)
qed

lemma client_changed_holds_token:
  assumes "client (snd (handle L rq st)) \<noteq> client st"
  shows "\<exists>t user_id url_state sess' w'.
           flow_finish L (get_auth_flow st) (query rq) (world st) =
             (Inr (t, user_id, url_state), sess', w') \<and>
           token_ok L t \<and> client (snd (handle L rq st)) = Some (DropboxClient t)"
proof -
  from assms have ex: "exchange_succeeds L rq st"
    by (rule client_changes_only_by_exchange)
  then have p: "path rq = ''/redirect_uri''"
    by (simp add: exchange_succeeds_def)
  from ex obtain t uid us sess' w' where
    f: "flow_finish L (get_auth_flow st) (query rq) (world st) = (Inr (t, uid, us), sess', w')"
    by (cases "flow_finish L (get_auth_flow st) (query rq) (world st)" rule: token_view.cases)
       (auto simp: exchange_succeeds_def)
  have ok: "token_ok L t"
  proof (rule ccontr)
    assume "\<not> token_ok L t"
    with p f have "client (snd (handle L rq st)) = client st"
      by (simp add: handle_redirect_uri redirect_uri_rejected_token)
    with assms show False by simp
  qed
  from p f ok have "client (snd (handle L rq st)) = Some (DropboxClient t)"
    by (simp add: client_redirect_uri_accepted)
  with f ok show ?thesis by blast
qed

section \<open>Repeated authorization starts\<close>


section \<open>The exchange result beyond the token\<close>

lemma token_view_Inl:
  "token_view y = token_view x \<Longrightarrow> x = (Inl e, sess', w') \<Longrightarrow> y = (Inl e, sess', w')"
  by (cases y rule: token_view.cases) auto

lemma token_view_Inr:
  "token_view y = token_view x \<Longrightarrow> x = (Inr (t, uid, us), sess', w') \<Longrightarrow>
   \<exists>uid' us'. y = (Inr (t, uid', us'), sess', w')"
  by (cases y rule: token_view.cases) auto

lemma client_account_info_flow_finish:
  "client_account_info (L\<lparr>flow_finish := f\<rparr>) st = client_account_info L st"
  by (simp add: client_account_info_def split: option.splits)

lemma client_metadata_flow_finish:
  "client_metadata (L\<lparr>flow_finish := f\<rparr>) p st = client_metadata L p st"
  by (simp add: client_metadata_def split: option.splits)

lemma redirect_uri_token_view:
  assumes "token_view (f (get_auth_flow st) (query rq) (world st)) =
           token_view (flow_finish L (get_auth_flow st) (query rq) (world st))"
  shows "redirect_uri (L\<lparr>flow_finish := f\<rparr>) rq st = redirect_uri L rq st"
proof (cases "flow_finish L (get_auth_flow st) (query rq) (world st)" rule: token_view.cases)
  case (1 e sess' w')
  from token_view_Inl [OF assms 1] 1 show ?thesis
    by (simp add: redirect_uri_def)
next
  case (2 t uid us sess' w')
  from token_view_Inr [OF assms 2] 2 show ?thesis
    by (auto simp: redirect_uri_def new_DropboxClient_def client_account_info_flow_finish)
qed

lemma finish_auth_token_view:
  assumes "token_view (f (get_auth_flow st) (query rq) (world st)) =
           token_view (flow_finish L (get_auth_flow st) (query rq) (world st))"
  shows "finish_auth (L\<lparr>flow_finish := f\<rparr>) rq st = finish_auth L rq st"
proof (cases "flow_finish L (get_auth_flow st) (query rq) (world st)" rule: token_view.cases)
  case (1 e sess' w')
  from token_view_Inl [OF assms 1] 1 show ?thesis
    by (simp add: finish_auth_def)
next
  case (2 t uid us sess' w')
  from token_view_Inr [OF assms 2] 2 show ?thesis
    by (auto simp: finish_auth_def)
qed

lemma call_token_view:
  assumes "\<forall>fl q w. token_view (f fl q w) = token_view (flow_finish L fl q w)"
  shows "call (L\<lparr>flow_finish := f\<rparr>) rq resp t st = call L rq resp t st"
proof (cases t)
  case To_redirect_uri
  then show ?thesis using assms by (simp add: redirect_uri_token_view)
next
  case To_finish_auth
  then show ?thesis using assms by (simp add: finish_auth_token_view)
qed (simp_all add: dropbox_auth_start_def redirect_def get_metadata_def
      client_metadata_flow_finish initial_corordinates_def client_account_info_flow_finish)

lemma handle_token_view:
  assumes "\<forall>fl q w. token_view (f fl q w) = token_view (flow_finish L fl q w)"
  shows "handle (L\<lparr>flow_finish := f\<rparr>) rq st = handle L rq st"
  by (simp add: handle_def call_token_view [OF assms] split: option.splits)

lemma run_token_view:
  assumes "\<forall>fl q w. token_view (f fl q w) = token_view (flow_finish L fl q w)"
  shows "run (L\<lparr>flow_finish := f\<rparr>) st rqs = run L st rqs"
  by (induction rqs arbitrary: st) (simp_all add: handle_token_view [OF assms])

lemma responses_token_view:
  assumes "\<forall>fl q w. token_view (f fl q w) = token_view (flow_finish L fl q w)"
  shows "responses (L\<lparr>flow_finish := f\<rparr>) st rqs = responses L st rqs"
  by (induction rqs arbitrary: st) (simp_all add: handle_token_view [OF assms])

lemma other_lib_flow_finish: "other_lib = mock_lib\<lparr>flow_finish := flow_finish other_lib\<rparr>"
  by (simp add: other_lib_def)

section \<open>The claims\<close>

text \<open>
  The definitions a run on concrete requests unfolds.
\<close>

lemmas run_simps = handle_def route_match_def wildcard_def get_def flaky_lib_def mock_lib_def redirect_uri_def
      client_account_info_def client_metadata_def get_auth_flow_def init_def http_error_def
      finish_auth_def get_metadata_def initial_corordinates_def dropbox_auth_start_def redirect_def
      enable_cors_def fresh_def exchange_succeeds_def new_DropboxClient_def

text \<open>
  Claim C1, as amended. In every run from the initial state in which no
  \<^verbatim>\<open>/redirect_uri\<close> request's token exchange has succeeded, the client slot is
  \<^verbatim>\<open>None\<close>; \<^verbatim>\<open>get_metadata\<close> and \<^verbatim>\<open>initial_corordinates\<close> then raise the
  \<^verbatim>\<open>AttributeError\<close> of the lookup on \<^verbatim>\<open>None\<close>, which bottle answers with the
  server error 500, and the state is untouched, so the server goes on serving.
\<close>

theorem unset_client_until_exchange:
  assumes "no_exchange_succeeded L (init w) rqs"
  shows "client (run L (init w) rqs) = None \<and>
         get_metadata L folder_path (run L (init w) rqs) =
           (RaisesExn (AttributeError ''metadata''), run L (init w) rqs) \<and>
         initial_corordinates L (run L (init w) rqs) =
           (RaisesExn (AttributeError ''account_info''), run L (init w) rqs) \<and>
         (path rq = ''/test'' \<or> (wildcard s \<and> path rq = ''/metadata/'' @ s) \<longrightarrow>
            handle L rq (run L (init w) rqs) = (http_error 500, run L (init w) rqs))"
proof -
  have c: "client (run L (init w) rqs) = None"
    using client_run_no_exchange [OF assms] by (simp add: init_def)
  show ?thesis
    using c get_metadata_unset [OF c, of L] initial_corordinates_unset [OF c, of L]
    by (auto simp: handle_metadata handle_test)
qed

text \<open>
  The claim as it is worded speaks of runs in which no \<^verbatim>\<open>/redirect_uri\<close> call has
  completed successfully. The slot is written as soon as the exchange has succeeded,
  before the account info is asked for: with a provider whose account-info call fails,
  the only \<^verbatim>\<open>/redirect_uri\<close> request of the run below is answered with 500, and yet
  the slot is set and a later \<^verbatim>\<open>/metadata\<close> request succeeds.
\<close>

theorem failed_redirect_uri_sets_client_counterexample:
  "status (fst (handle flaky_lib (get ''/redirect_uri'' [(''code'', ''good'')]) (init 0))) = 500 \<and>
   client (run flaky_lib (init 0) [get ''/redirect_uri'' [(''code'', ''good'')]]) =
     Some (DropboxClient ''token'') \<and>
   status (fst (handle flaky_lib (get ''/metadata/photos'' [])
     (run flaky_lib (init 0) [get ''/redirect_uri'' [(''code'', ''good'')]]))) = 200 \<and>
   body (fst (handle flaky_lib (get ''/metadata/photos'' [])
     (run flaky_lib (init 0) [get ''/redirect_uri'' [(''code'', ''good'')]]))) = Json ''/photos''"
  by (simp add: run_simps)

theorem unset_client_until_exchange_witness:
  "no_exchange_succeeded mock_lib (init 0)
     [get ''/dropbox-auth-start'' [], get ''/redirect_uri'' [(''code'', ''stale'')],
      get ''/dropbox-auth-finish'' [(''code'', ''good'')]] \<and>
   client (run mock_lib (init 0)
     [get ''/dropbox-auth-start'' [], get ''/redirect_uri'' [(''code'', ''stale'')],
      get ''/dropbox-auth-finish'' [(''code'', ''good'')]]) = None \<and>
   wildcard ''photos'' \<and>
   fst (handle mock_lib (get ''/metadata/photos'' []) (run mock_lib (init 0)
     [get ''/dropbox-auth-start'' [], get ''/redirect_uri'' [(''code'', ''stale'')],
      get ''/dropbox-auth-finish'' [(''code'', ''good'')]])) = http_error 500 \<and>
   fst (handle mock_lib (get ''/test'' []) (run mock_lib (init 0)
     [get ''/dropbox-auth-start'' [], get ''/redirect_uri'' [(''code'', ''stale'')],
      get ''/dropbox-auth-finish'' [(''code'', ''good'')]])) = http_error 500"
proof -
  have h: "no_exchange_succeeded mock_lib (init 0)
     [get ''/dropbox-auth-start'' [], get ''/redirect_uri'' [(''code'', ''stale'')],
      get ''/dropbox-auth-finish'' [(''code'', ''good'')]]"
    by (simp add: run_simps)
  have p: "wildcard ''photos''" by (simp add: wildcard_def)
  have q: "path (get ''/metadata/photos'' []) = ''/metadata/'' @ ''photos''"
    by (simp add: get_def)
  have t: "path (get ''/test'' []) = ''/test''" by (simp add: get_def)
  from unset_client_until_exchange [OF h, where rq = "get ''/metadata/photos'' []" and s = "''photos''"]
    unset_client_until_exchange [OF h, where rq = "get ''/test'' []" and s = "''photos''"] h p q t
  show ?thesis by simp
qed

text \<open>
  Claim C2, as amended. When the token exchange of a \<^verbatim>\<open>/redirect_uri\<close> request succeeds
  with an access token \<open>t\<close> that the client constructor accepts, the handler stores
  \<^verbatim>\<open>DropboxClient(t)\<close> in the slot and answers with what that client's
  \<^verbatim>\<open>account_info()\<close> yields: the account-info object \<open>j\<close> as the body, with status
  200, when the call returns it, and the server error 500 when the call raises, the slot
  staying set. After any further requests among which no exchange succeeds, the slot still
  holds that client, and \<^verbatim>\<open>/test\<close> answers with what its \<^verbatim>\<open>account_info()\<close> yields
  then. When the constructor rejects the token, its exception is let through: the answer
  is 500 and the slot is left as it was.
\<close>

theorem redirect_uri_stores_client_and_returns_account_info:
  assumes "path rq = ''/redirect_uri''"
    and "flow_finish L (get_auth_flow st) (query rq) (world st) =
           (Inr (t, user_id, url_state), sess', w')"
    and "account_info L (DropboxClient t) w' = (r, w'')"
    and "no_exchange_succeeded L (snd (handle L rq st)) rqs"
    and "path rq' = ''/test''"
  shows "(token_ok L t \<longrightarrow>
            handle L rq st =
              (respond (enable_cors fresh) (result_outcome r),
               st\<lparr>session := sess', client := Some (DropboxClient t), world := w''\<rparr>) \<and>
            (r = Inr j \<longrightarrow>
               status (fst (handle L rq st)) = 200 \<and> body (fst (handle L rq st)) = Json j) \<and>
            (isl r \<longrightarrow> fst (handle L rq st) = http_error 500) \<and>
            client (run L (snd (handle L rq st)) rqs) = Some (DropboxClient t) \<and>
            fst (handle L rq' (run L (snd (handle L rq st)) rqs)) =
              respond (enable_cors fresh)
                (result_outcome (fst (account_info L (DropboxClient t)
                   (world (run L (snd (handle L rq st)) rqs)))))) \<and>
         (token_ok L t = False \<longrightarrow>
            handle L rq st = (http_error 500, st\<lparr>session := sess', world := w'\<rparr>))"
proof (cases "token_ok L t")
  case True
  have h: "handle L rq st =
           (respond (enable_cors fresh) (result_outcome r),
            st\<lparr>session := sess', client := Some (DropboxClient t), world := w''\<rparr>)"
    using assms(1-3) True by (simp add: handle_redirect_uri redirect_uri_success)
  have c: "client (run L (snd (handle L rq st)) rqs) = Some (DropboxClient t)"
    using client_run_no_exchange [OF assms(4)] h by simp
  have b: "r = Inr j \<longrightarrow>
      status (fst (handle L rq st)) = 200 \<and> body (fst (handle L rq st)) = Json j"
    using h by (simp add: enable_cors_def fresh_def)
  have e: "isl r \<longrightarrow> fst (handle L rq st) = http_error 500"
    using h by (cases r) simp_all
  show ?thesis
    using True h b c e assms(5) by (simp add: handle_test initial_corordinates_set)
next
  case False
  then show ?thesis
    using assms(1,2) by (simp add: handle_redirect_uri redirect_uri_rejected_token)
qed

text \<open>
  The claim promises the account-info object as the body whenever the exchange succeeds.
  With a provider whose account-info call fails, the exchange below succeeds, the client
  is stored, and the answer is the error page of the status 500.
\<close>

theorem redirect_uri_account_info_raises_counterexample:
  "fst (flow_finish flaky_lib (get_auth_flow (init 0))
     (query (get ''/redirect_uri'' [(''state'', ''x''), (''code'', ''good'')])) 0) =
     Inr (''token'', ''uid'', None) \<and>
   status (fst (handle flaky_lib (get ''/redirect_uri'' [(''state'', ''x''), (''code'', ''good'')])
     (init 0))) = 500 \<and>
   body (fst (handle flaky_lib (get ''/redirect_uri'' [(''state'', ''x''), (''code'', ''good'')])
     (init 0))) = ErrorPage 500 \<and>
   client (snd (handle flaky_lib (get ''/redirect_uri'' [(''state'', ''x''), (''code'', ''good'')])
     (init 0))) = Some (DropboxClient ''token'')"
  by (simp add: run_simps)

theorem redirect_uri_stores_client_and_returns_account_info_witness:
  "path (get ''/redirect_uri'' [(''state'', ''x''), (''code'', ''good'')]) = ''/redirect_uri'' \<and>
   flow_finish mock_lib (get_auth_flow (init 0))
     (query (get ''/redirect_uri'' [(''state'', ''x''), (''code'', ''good'')])) (world (init 0 :: nat state)) =
     (Inr (''token'', ''uid'', None), Map.empty, 1) \<and>
   token_ok mock_lib ''token'' \<and>
   account_info mock_lib (DropboxClient ''token'') 1 = (Inr ''account of token'', 2) \<and>
   no_exchange_succeeded mock_lib
     (snd (handle mock_lib (get ''/redirect_uri'' [(''state'', ''x''), (''code'', ''good'')]) (init 0)))
     [get ''/metadata/photos'' [], get ''/dropbox-auth-finish'' []] \<and>
   body (fst (handle mock_lib (get ''/redirect_uri'' [(''state'', ''x''), (''code'', ''good'')]) (init 0))) =
     Json ''account of token'' \<and>
   client (snd (handle mock_lib (get ''/redirect_uri'' [(''state'', ''x''), (''code'', ''good'')]) (init 0))) =
     Some (DropboxClient ''token'') \<and>
   body (fst (handle mock_lib (get ''/test'' [])
     (run mock_lib
        (snd (handle mock_lib (get ''/redirect_uri'' [(''state'', ''x''), (''code'', ''good'')]) (init 0)))
        [get ''/metadata/photos'' [], get ''/dropbox-auth-finish'' []]))) = Json ''account of token'' \<and>
   account_info flaky_lib (DropboxClient ''token'') 1 = (Inl (SdkError ''upstream''), 2) \<and>
   fst (handle flaky_lib (get ''/redirect_uri'' [(''state'', ''x''), (''code'', ''good'')]) (init 0)) =
     http_error 500 \<and>
   token_ok blank_lib [] = False \<and>
   handle blank_lib (get ''/redirect_uri'' [(''state'', ''x''), (''code'', ''good'')]) (init 0) =
     (http_error 500, init 1)"
proof -
  have p: "path (get ''/redirect_uri'' [(''state'', ''x''), (''code'', ''good'')]) = ''/redirect_uri''"
    by (simp add: get_def)
  have e: "flow_finish mock_lib (get_auth_flow (init 0))
     (query (get ''/redirect_uri'' [(''state'', ''x''), (''code'', ''good'')])) (world (init 0 :: nat state)) =
     (Inr (''token'', ''uid'', None), Map.empty, 1)"
    by (simp add: run_simps)
  have a: "account_info mock_lib (DropboxClient ''token'') 1 = (Inr ''account of token'', 2)"
    by (simp add: mock_lib_def)
  have n: "no_exchange_succeeded mock_lib
     (snd (handle mock_lib (get ''/redirect_uri'' [(''state'', ''x''), (''code'', ''good'')]) (init 0)))
     [get ''/metadata/photos'' [], get ''/dropbox-auth-finish'' []]"
    by (simp add: run_simps)
  have t: "path (get ''/test'' []) = ''/test''"
    by (simp add: get_def)
  have e': "flow_finish flaky_lib (get_auth_flow (init 0))
     (query (get ''/redirect_uri'' [(''state'', ''x''), (''code'', ''good'')])) (world (init 0 :: nat state)) =
     (Inr (''token'', ''uid'', None), Map.empty, 1)"
    by (simp add: run_simps)
  have a': "account_info flaky_lib (DropboxClient ''token'') 1 = (Inl (SdkError ''upstream''), 2)"
    by (simp add: flaky_lib_def mock_lib_def)
  have n': "no_exchange_succeeded flaky_lib
     (snd (handle flaky_lib (get ''/redirect_uri'' [(''state'', ''x''), (''code'', ''good'')]) (init 0)))
     []"
    by simp
  have e'': "flow_finish blank_lib (get_auth_flow (init 0))
     (query (get ''/redirect_uri'' [(''state'', ''x''), (''code'', ''good'')])) (world (init 0 :: nat state)) =
     (Inr ([], ''uid'', None), Map.empty, 1)"
    by (simp add: blank_lib_def run_simps)
  have a'': "account_info blank_lib (DropboxClient []) 1 = (Inr ''account of '', 2)"
    by (simp add: blank_lib_def mock_lib_def)
  have n'': "no_exchange_succeeded blank_lib
     (snd (handle blank_lib (get ''/redirect_uri'' [(''state'', ''x''), (''code'', ''good'')]) (init 0)))
     []"
    by simp
  have k: "token_ok mock_lib ''token''" "token_ok flaky_lib ''token''" "token_ok blank_lib [] = False"
    by (simp_all add: blank_lib_def flaky_lib_def mock_lib_def)
  from redirect_uri_stores_client_and_returns_account_info [OF p e a n t, of "''account of token''"]
    redirect_uri_stores_client_and_returns_account_info [OF p e' a' n' t, of "''account of token''"]
    redirect_uri_stores_client_and_returns_account_info [OF p e'' a'' n'' t, of "''account of token''"]
    p e a n a' k
  show ?thesis by (simp add: run_simps blank_lib_def)
qed

text \<open>
  Claim C3. When the token exchange of a \<^verbatim>\<open>/redirect_uri\<close> request fails, the
  handler lets the SDK's exception through, bottle answers with the server error 500,
  and the client slot is what it was: the assignment comes after the exchange. The
  session and the world are what the SDK left.
\<close>

theorem redirect_uri_failed_exchange_keeps_client:
  assumes "flow_finish L (get_auth_flow st) (query rq) (world st) = (Inl e, sess', w')"
  shows "redirect_uri L rq st = (RaisesExn e, st\<lparr>session := sess', world := w'\<rparr>) \<and>
         client (snd (redirect_uri L rq st)) = client st \<and>
         (path rq = ''/redirect_uri'' \<longrightarrow>
            fst (handle L rq st) = http_error 500 \<and>
            client (snd (handle L rq st)) = client st)"
  using assms by (simp add: redirect_uri_Inl handle_def route_match_static)

theorem redirect_uri_failed_exchange_keeps_client_witness:
  "flow_finish mock_lib (get_auth_flow (init 0\<lparr>client := Some (DropboxClient ''old'')\<rparr>))
     (query (get ''/redirect_uri'' [(''state'', ''x''), (''code'', ''stale'')])) 0 =
     (Inl (SdkError ''bad request''), Map.empty, 0) \<and>
   fst (handle mock_lib (get ''/redirect_uri'' [(''state'', ''x''), (''code'', ''stale'')])
     (init 0\<lparr>client := Some (DropboxClient ''old'')\<rparr>)) = http_error 500 \<and>
   client (snd (handle mock_lib (get ''/redirect_uri'' [(''state'', ''x''), (''code'', ''stale'')])
     (init 0\<lparr>client := Some (DropboxClient ''old'')\<rparr>))) = Some (DropboxClient ''old'')"
proof -
  have h: "flow_finish mock_lib (get_auth_flow (init 0\<lparr>client := Some (DropboxClient ''old'')\<rparr>))
     (query (get ''/redirect_uri'' [(''state'', ''x''), (''code'', ''stale'')]))
     (world (init 0\<lparr>client := Some (DropboxClient ''old'')\<rparr>)) =
     (Inl (SdkError ''bad request''), Map.empty, 0)"
    by (simp add: mock_lib_def get_def get_auth_flow_def init_def)
  from redirect_uri_failed_exchange_keeps_client [OF h] h show ?thesis
    by (simp add: get_def init_def)
qed

text \<open>
  Claim C4. \<^verbatim>\<open>redirect_uri\<close> is the only writer of the client slot: the handlers
  of \<^verbatim>\<open>/dropbox-auth-start\<close>, \<^verbatim>\<open>/dropbox-auth-finish\<close>,
  \<^verbatim>\<open>/metadata/:folder_path\<close> and \<^verbatim>\<open>/test\<close> leave it as it was, and so does
  every request whose path is not \<^verbatim>\<open>/redirect_uri\<close>.
\<close>

theorem only_redirect_uri_writes_client:
  "client (snd (dropbox_auth_start L rq resp st)) = client st \<and>
   client (snd (finish_auth L rq st)) = client st \<and>
   client (snd (get_metadata L folder_path st)) = client st \<and>
   client (snd (initial_corordinates L st)) = client st \<and>
   (path rq \<noteq> ''/redirect_uri'' \<longrightarrow> client (snd (handle L rq st)) = client st)"
  by (simp add: client_dropbox_auth_start client_finish_auth get_metadata_def
      client_client_metadata initial_corordinates_def client_client_account_info
      client_handle_other)

theorem only_redirect_uri_writes_client_witness:
  "path (get ''/dropbox-auth-finish'' [(''code'', ''good'')]) \<noteq> ''/redirect_uri'' \<and>
   client (snd (handle mock_lib (get ''/dropbox-auth-finish'' [(''code'', ''good'')]) (init 0))) =
     client (init 0 :: nat state) \<and>
   client (snd (handle mock_lib (get ''/dropbox-auth-finish'' [(''code'', ''good'')]) (init 0))) = None"
  using only_redirect_uri_writes_client
    [of mock_lib "get ''/dropbox-auth-finish'' [(''code'', ''good'')]" fresh "init 0" "[]"]
  by (simp add: get_def init_def)

text \<open>
  Claim C5 says that every response, error responses included, carries the three CORS
  headers, and the docstring of \<^verbatim>\<open>enable_cors\<close> says the headers are added to each
  request. The hook writes them to the global response object; for a handler that
  raises, bottle sends the \<^verbatim>\<open>HTTPError\<close> it builds instead, with that object's own
  headers. So the answer to \<^verbatim>\<open>/test\<close> in the initial state, where the lookup on
  \<^verbatim>\<open>None\<close> raises, is the error 500 with none of the three headers.
\<close>

theorem error_response_lacks_cors_headers:
  "fst (handle L (get ''/test'' []) (init w)) = http_error 500 \<and>
   headers (fst (handle L (get ''/test'' []) (init w))) ''Access-Control-Allow-Origin'' = None \<and>
   headers (fst (handle L (get ''/test'' []) (init w))) ''Access-Control-Allow-Methods'' = None \<and>
   headers (fst (handle L (get ''/test'' []) (init w))) ''Access-Control-Allow-Headers'' = None"
  by (simp add: handle_test get_def initial_corordinates_unset init_def http_error_def)

text \<open>
  Claim C6, as amended. With the client set, \<^verbatim>\<open>get_metadata\<close> asks the client for
  the metadata of the slash followed by its argument, unchanged, and answers with the
  result. A request for \<^verbatim>\<open>/metadata/\<close> followed by a segment (one or more
  characters, none a slash) is routed to it with that segment; a request whose rest is
  empty or holds a slash matches no route and is answered 404, the state untouched.
\<close>

theorem get_metadata_prepends_slash:
  assumes "client st = Some c"
    and "metadata L c (''/'' @ s) (world st) = (r, w')"
  shows "get_metadata L s st = (result_outcome r, st\<lparr>world := w'\<rparr>) \<and>
         (wildcard s \<and> path rq = ''/metadata/'' @ s \<longrightarrow>
            handle L rq st = (respond (enable_cors fresh) (result_outcome r), st\<lparr>world := w'\<rparr>)) \<and>
         (wildcard s = False \<and> path rq = ''/metadata/'' @ s \<longrightarrow>
            handle L rq st = (http_error 404, st))"
  using assms get_metadata_set [OF assms(1), of L s]
  by (auto simp: handle_metadata handle_unrouted_metadata)

text \<open>
  The claim's example: \<^verbatim>\<open>foo%2Fbar\<close> reaches bottle decoded, as the path
  \<^verbatim>\<open>/metadata/foo/bar\<close>, which no route matches: the answer is 404 and the client is
  not called (the world still counts no call). Had the path kept its three characters
  \<^verbatim>\<open>%2F\<close>, the handler would forward them as they are. Neither way is
  \<^verbatim>\<open>/foo/bar\<close> asked for.
\<close>

theorem metadata_path_with_slash_counterexample:
  "handle mock_lib (get ''/metadata/foo/bar'' []) (init 0\<lparr>client := Some (DropboxClient ''token'')\<rparr>) =
     (http_error 404, init 0\<lparr>client := Some (DropboxClient ''token'')\<rparr>) \<and>
   body (fst (handle mock_lib (get ''/metadata/foo%2Fbar'' [])
     (init 0\<lparr>client := Some (DropboxClient ''token'')\<rparr>))) = Json ''/foo%2Fbar''"
  by (simp add: run_simps)

theorem get_metadata_prepends_slash_witness:
  "client (init 0\<lparr>client := Some (DropboxClient ''token'')\<rparr> :: nat state) = Some (DropboxClient ''token'') \<and>
   metadata mock_lib (DropboxClient ''token'') (''/'' @ ''photos'') 0 = (Inr ''/photos'', 1) \<and>
   wildcard ''photos'' \<and>
   handle mock_lib (get ''/metadata/photos'' []) (init 0\<lparr>client := Some (DropboxClient ''token'')\<rparr>) =
     (respond (enable_cors fresh) (Returns (Some ''/photos'')),
      init 0\<lparr>client := Some (DropboxClient ''token''), world := 1\<rparr>) \<and>
   wildcard ''foo/bar'' = False \<and>
   handle mock_lib (get ''/metadata/foo/bar'' []) (init 0\<lparr>client := Some (DropboxClient ''token'')\<rparr>) =
     (http_error 404, init 0\<lparr>client := Some (DropboxClient ''token'')\<rparr>)"
proof -
  have c: "client (init 0\<lparr>client := Some (DropboxClient ''token'')\<rparr> :: nat state) =
      Some (DropboxClient ''token'')"
    by (simp add: init_def)
  have m: "metadata mock_lib (DropboxClient ''token'') (''/'' @ ''photos'')
      (world (init 0\<lparr>client := Some (DropboxClient ''token'')\<rparr>)) = (Inr ''/photos'', 1)"
    by (simp add: mock_lib_def init_def)
  have m': "metadata mock_lib (DropboxClient ''token'') (''/'' @ ''foo/bar'')
      (world (init 0\<lparr>client := Some (DropboxClient ''token'')\<rparr>)) = (Inr ''/foo/bar'', 1)"
    by (simp add: mock_lib_def init_def)
  from get_metadata_prepends_slash [OF c m, of "get ''/metadata/photos'' []"]
    get_metadata_prepends_slash [OF c m', of "get ''/metadata/foo/bar'' []"] c m
  show ?thesis by (simp add: wildcard_def get_def init_def)
qed

text \<open>
  Claim C7, as amended. \<^verbatim>\<open>finish_auth\<close> makes the call to \<^verbatim>\<open>finish\<close> that
  \<^verbatim>\<open>redirect_uri\<close> makes, on the same flow and query, and leaves the client slot as
  it was. When the exchange returns, the token, the user id and the URL state are dropped
  and the answer has an empty body; when it raises, the exception is let through, as in
  \<^verbatim>\<open>redirect_uri\<close>, and the answer is the error 500.
\<close>

theorem finish_auth_discards_exchange:
  assumes "flow_finish L (get_auth_flow st) (query rq) (world st) = (res, sess', w')"
  shows "finish_auth L rq st =
           ((case res of Inl e \<Rightarrow> RaisesExn e | Inr tok \<Rightarrow> Returns None),
            st\<lparr>session := sess', world := w'\<rparr>) \<and>
         client (snd (finish_auth L rq st)) = client st \<and>
         (isl res \<longrightarrow> finish_auth L rq st = redirect_uri L rq st) \<and>
         session (snd (finish_auth L rq st)) = session (snd (redirect_uri L rq st)) \<and>
         (path rq = ''/dropbox-auth-finish'' \<longrightarrow>
            fst (handle L rq st) =
              (case res of Inl e \<Rightarrow> http_error 500
               | Inr tok \<Rightarrow> (enable_cors fresh)\<lparr>body := Empty\<rparr>) \<and>
            client (snd (handle L rq st)) = client st)"
  using assms
  by (cases res)
     (auto simp: finish_auth_def redirect_uri_def new_DropboxClient_def handle_finish_auth
        client_account_info_def
        split: prod.splits)

text \<open>
  The claim promises an empty body for every request. A request without a code makes
  the exchange raise, and the answer is the error page of the status 500.
\<close>

theorem finish_auth_empty_body_counterexample:
  "fst (finish_auth mock_lib (get ''/dropbox-auth-finish'' []) (init 0)) =
     RaisesExn (SdkError ''bad request'') \<and>
   status (fst (handle mock_lib (get ''/dropbox-auth-finish'' []) (init 0))) = 500 \<and>
   body (fst (handle mock_lib (get ''/dropbox-auth-finish'' []) (init 0))) = ErrorPage 500"
  by (simp add: run_simps)

theorem finish_auth_discards_exchange_witness:
  "flow_finish mock_lib (get_auth_flow (init 0))
     (query (get ''/dropbox-auth-finish'' [(''code'', ''good'')])) (world (init 0 :: nat state)) =
     (Inr (''token'', ''uid'', None), Map.empty, 1) \<and>
   flow_finish mock_lib (get_auth_flow (init 0))
     (query (get ''/dropbox-auth-finish'' [])) (world (init 0 :: nat state)) =
     (Inl (SdkError ''bad request''), Map.empty, 0) \<and>
   handle mock_lib (get ''/dropbox-auth-finish'' [(''code'', ''good'')]) (init 0) =
     ((enable_cors fresh)\<lparr>body := Empty\<rparr>, init 1) \<and>
   handle mock_lib (get ''/dropbox-auth-finish'' []) (init 0) = (http_error 500, init 0) \<and>
   finish_auth mock_lib (get ''/dropbox-auth-finish'' []) (init 0) =
     redirect_uri mock_lib (get ''/dropbox-auth-finish'' []) (init 0)"
proof -
  have g: "flow_finish mock_lib (get_auth_flow (init 0))
     (query (get ''/dropbox-auth-finish'' [(''code'', ''good'')])) (world (init 0 :: nat state)) =
     (Inr (''token'', ''uid'', None), Map.empty, 1)"
    by (simp add: run_simps)
  have b: "flow_finish mock_lib (get_auth_flow (init 0))
     (query (get ''/dropbox-auth-finish'' [])) (world (init 0 :: nat state)) =
     (Inl (SdkError ''bad request''), Map.empty, 0)"
    by (simp add: run_simps)
  have p: "path (get ''/dropbox-auth-finish'' [(''code'', ''good'')]) = ''/dropbox-auth-finish''"
    "path (get ''/dropbox-auth-finish'' []) = ''/dropbox-auth-finish''"
    by (simp_all add: get_def)
  from finish_auth_discards_exchange [OF g] finish_auth_discards_exchange [OF b] g b p
  show ?thesis by (simp add: run_simps)
qed



text \<open>
  Claim C9, as amended. Once the client slot is set, no sequence of requests clears it. A
  request changes the slot only if it is a \<^verbatim>\<open>/redirect_uri\<close> request whose token
  exchange succeeds with a token the client constructor accepts, and the slot then holds
  the client of that token; and every such request overwrites the slot, whether or not
  its own account-info call succeeds afterwards.
\<close>

theorem client_never_cleared:
  "(client st \<noteq> None \<longrightarrow> client (run L st rqs) \<noteq> None) \<and>
   (client (snd (handle L rq st)) \<noteq> client st \<longrightarrow>
      exchange_succeeds L rq st \<and>
      (\<exists>t user_id url_state sess' w'.
         flow_finish L (get_auth_flow st) (query rq) (world st) =
           (Inr (t, user_id, url_state), sess', w') \<and>
         token_ok L t \<and> client (snd (handle L rq st)) = Some (DropboxClient t))) \<and>
   (path rq = ''/redirect_uri'' \<and>
    fst (flow_finish L (get_auth_flow st) (query rq) (world st)) = Inr (t, uid, us) \<and>
    token_ok L t \<longrightarrow>
      client (snd (handle L rq st)) = Some (DropboxClient t))"
  using client_run_some [of st L rqs] client_changes_only_by_exchange [of L rq st]
    client_changed_holds_token [of L rq st] client_redirect_uri_accepted [of rq L st t uid us]
  by blast

text \<open>
  The claim lets only a successful \<^verbatim>\<open>/redirect_uri\<close> overwrite the slot. With a
  provider whose account-info call fails, the request below is answered with 500, and it
  has replaced the client \<^verbatim>\<open>old\<close> by the client of the new token.
\<close>

theorem client_overwritten_by_failed_redirect_uri_counterexample:
  "client (init 0\<lparr>client := Some (DropboxClient ''old'')\<rparr> :: nat state) =
     Some (DropboxClient ''old'') \<and>
   status (fst (handle flaky_lib (get ''/redirect_uri'' [(''code'', ''good'')])
     (init 0\<lparr>client := Some (DropboxClient ''old'')\<rparr>))) = 500 \<and>
   client (snd (handle flaky_lib (get ''/redirect_uri'' [(''code'', ''good'')])
     (init 0\<lparr>client := Some (DropboxClient ''old'')\<rparr>))) = Some (DropboxClient ''token'')"
  by (simp add: run_simps)

theorem client_never_cleared_witness:
  "client (init 0\<lparr>client := Some (DropboxClient ''token'')\<rparr> :: nat state) \<noteq> None \<and>
   client (run mock_lib (init 0\<lparr>client := Some (DropboxClient ''token'')\<rparr>)
     [get ''/test'' [], get ''/dropbox-auth-finish'' [], get ''/redirect_uri'' [(''code'', ''stale'')],
      get ''/metadata/photos'' [], get ''/logout'' [], get ''/dropbox-auth-start'' []]) \<noteq> None \<and>
   client (snd (handle mock_lib (get ''/redirect_uri'' [(''code'', ''good'')]) (init 0))) \<noteq>
     client (init 0 :: nat state) \<and>
   exchange_succeeds mock_lib (get ''/redirect_uri'' [(''code'', ''good'')]) (init 0) \<and>
   path (get ''/redirect_uri'' [(''code'', ''good'')]) = ''/redirect_uri'' \<and>
   fst (flow_finish flaky_lib (get_auth_flow (init 0\<lparr>client := Some (DropboxClient ''old'')\<rparr>))
     (query (get ''/redirect_uri'' [(''code'', ''good'')]))
     (world (init 0\<lparr>client := Some (DropboxClient ''old'')\<rparr> :: nat state))) =
     Inr (''token'', ''uid'', None) \<and>
   token_ok flaky_lib ''token'' \<and>
   client (snd (handle flaky_lib (get ''/redirect_uri'' [(''code'', ''good'')])
     (init 0\<lparr>client := Some (DropboxClient ''old'')\<rparr>))) = Some (DropboxClient ''token'')"
  using client_never_cleared [of "init 0\<lparr>client := Some (DropboxClient ''token'')\<rparr>" mock_lib
      "[get ''/test'' [], get ''/dropbox-auth-finish'' [], get ''/redirect_uri'' [(''code'', ''stale'')],
        get ''/metadata/photos'' [], get ''/logout'' [], get ''/dropbox-auth-start'' []]"
      "get ''/redirect_uri'' [(''code'', ''good'')]"]
    client_never_cleared [of "init 0" mock_lib "[]" "get ''/redirect_uri'' [(''code'', ''good'')]"]
    client_never_cleared [of "init 0\<lparr>client := Some (DropboxClient ''old'')\<rparr>" flaky_lib "[]"
      "get ''/redirect_uri'' [(''code'', ''good'')]" "''token''" "''uid''" None]
  by (simp add: run_simps)

text \<open>
  Claim C10. Only the token of an exchange's result matters. Replace \<^verbatim>\<open>finish\<close> by
  any \<open>f\<close> whose results differ from it in nothing but the user id and the URL
  state: \<^verbatim>\<open>redirect_uri\<close> returns the same and stores the same, \<^verbatim>\<open>get_metadata\<close> and
  \<^verbatim>\<open>initial_corordinates\<close> behave the same, and so every run ends in the same state
  after the same responses.
\<close>

theorem exchange_user_id_and_url_state_discarded:
  assumes "\<forall>fl q w. token_view (f fl q w) = token_view (flow_finish L fl q w)"
  shows "redirect_uri (L\<lparr>flow_finish := f\<rparr>) rq st = redirect_uri L rq st \<and>
         get_metadata (L\<lparr>flow_finish := f\<rparr>) folder_path st' = get_metadata L folder_path st' \<and>
         initial_corordinates (L\<lparr>flow_finish := f\<rparr>) st' = initial_corordinates L st' \<and>
         run (L\<lparr>flow_finish := f\<rparr>) st rqs = run L st rqs \<and>
         responses (L\<lparr>flow_finish := f\<rparr>) st rqs = responses L st rqs"
  using assms redirect_uri_token_view [of f st rq L]
  by (simp add: run_token_view responses_token_view get_metadata_def
      client_metadata_flow_finish initial_corordinates_def client_account_info_flow_finish)

theorem exchange_user_id_and_url_state_discarded_witness:
  "(\<forall>fl q w. token_view (flow_finish other_lib fl q w) = token_view (flow_finish mock_lib fl q w)) \<and>
   flow_finish other_lib (get_auth_flow (init 0)) [(''code'', ''good'')] 0 =
     (Inr (''token'', ''another uid'', Some ''/home''), Map.empty, 1) \<and>
   flow_finish mock_lib (get_auth_flow (init 0)) [(''code'', ''good'')] 0 =
     (Inr (''token'', ''uid'', None), Map.empty, 1) \<and>
   run other_lib (init 0) [get ''/redirect_uri'' [(''code'', ''good'')], get ''/test'' []] =
     run mock_lib (init 0) [get ''/redirect_uri'' [(''code'', ''good'')], get ''/test'' []] \<and>
   responses other_lib (init 0)
     [get ''/redirect_uri'' [(''code'', ''good'')], get ''/metadata/photos'' [], get ''/test'' []] =
   responses mock_lib (init 0)
     [get ''/redirect_uri'' [(''code'', ''good'')], get ''/metadata/photos'' [], get ''/test'' []]"
proof -
  have h: "\<forall>fl q w. token_view (flow_finish other_lib fl q w) =
      token_view (flow_finish mock_lib fl q w)"
    by (simp add: other_lib_def mock_lib_def)
  have a: "flow_finish other_lib (get_auth_flow (init 0)) [(''code'', ''good'')] 0 =
     (Inr (''token'', ''another uid'', Some ''/home''), Map.empty, 1)"
    by (simp add: other_lib_def mock_lib_def get_auth_flow_def init_def)
  have b: "flow_finish mock_lib (get_auth_flow (init 0)) [(''code'', ''good'')] 0 =
     (Inr (''token'', ''uid'', None), Map.empty, 1)"
    by (simp add: mock_lib_def get_auth_flow_def init_def)
  from exchange_user_id_and_url_state_discarded [OF h,
      where st = "init 0" and
        rqs = "[get ''/redirect_uri'' [(''code'', ''good'')], get ''/test'' []]"]
    exchange_user_id_and_url_state_discarded [OF h,
      where st = "init 0" and
        rqs = "[get ''/redirect_uri'' [(''code'', ''good'')], get ''/metadata/photos'' [], get ''/test'' []]"]
    h a b
  show ?thesis by (simp add: other_lib_flow_finish [symmetric])
qed

end
